theory Spec2Isabelle
  imports Main "HOL-Library.Sublist"
begin

section \<open>Data model\<close>

text \<open>
  The program is the Python package \<^verbatim>\<open>camerge\<close> (file \<^verbatim>\<open>src/camerge/__init__.py\<close>).
  It works on objects of the \<^verbatim>\<open>icalendar\<close> library. A property value is modelled by
  what the code reads from it.

  A calendar date compares like Python's \<^verbatim>\<open>datetime.date\<close>: by year, then month,
  then day. A \<^verbatim>\<open>datetime.datetime\<close> is a date with a time of day; its \<^verbatim>\<open>date()\<close>
  drops the time (and any zone) and keeps the date.
\<close>

datatype date = Date (year: nat) (month: nat) (day: nat)

fun date_less :: "date \<Rightarrow> date \<Rightarrow> bool" where
  "date_less (Date y1 m1 d1) (Date y2 m2 d2) =
     (y1 < y2 \<or> (y1 = y2 \<and> (m1 < m2 \<or> (m1 = m2 \<and> d1 < d2))))"

text \<open>
  The attribute \<^verbatim>\<open>.dt\<close> of a date-valued property: a date, a date with a time
  (hour, minute, second), or a value of another kind (a duration, a time of day,
  a period), which Python cannot compare with a date.
\<close>

datatype dt_value =
    DDate date
  | DDateTime date nat nat nat
  | DOther

text \<open>
  A Python value stored in an event: a plain \<^verbatim>\<open>str\<close> (it has no \<^verbatim>\<open>params\<close>
  attribute), a value object of the library, or a list of values (the library stores
  a repeated property as a list). A value object is modelled by what the code reads
  from it: the string it is when it is one (\<^verbatim>\<open>vText\<close> and \<^verbatim>\<open>vCalAddress\<close> are
  subclasses of \<^verbatim>\<open>str\<close>, a date value is not), its parameters (keys in canonical lower
  case), its serialised form \<^verbatim>\<open>to_ical().decode()\<close>, and its \<^verbatim>\<open>.dt\<close> attribute when it has one.
\<close>

datatype pyval =
    PyStr string
  | ICal (str_value: "string option") (params: "(string \<times> string) list") (to_ical: string)
      (dt: "dt_value option")
  | PyList "pyval list"

text \<open>An event is a dictionary from property names (canonical lower case, the
  library compares them caselessly) to values.\<close>

type_synonym event = "string \<rightharpoonup> pyval"

datatype component =
    Timezone string
  | Event event
  | Other string

text \<open>The merged calendar: \<^verbatim>\<open>PRODID\<close>, \<^verbatim>\<open>VERSION\<close> and the components added to it.\<close>

record calendar =
  prodid :: string
  version :: string
  subcomponents :: "component list"

datatype error = ValueError | KeyError | AttributeError | TypeError | OSError | URLError

text \<open>
  The collaborators outside the repository: the digest of \<^verbatim>\<open>hashlib\<close>, the
  serialiser and the parser of \<^verbatim>\<open>icalendar\<close>, the file system and the network.
\<close>

record env =
  md5_hexdigest :: "string \<Rightarrow> string"
  component_to_ical :: "event \<Rightarrow> string"
  from_ical :: "string \<Rightarrow> error + component list"
  read_file :: "string \<Rightarrow> error + string"
  urlopen :: "string \<Rightarrow> error + string"
  calendar_to_ical :: "calendar \<Rightarrow> string"

section \<open>Status resolver\<close>

text \<open>\<^verbatim>\<open>hasattr(a, 'params')\<close>\<close>

fun has_params :: "pyval \<Rightarrow> bool" where
  "has_params (PyStr s) = False"
| "has_params (ICal t ps i d) = True"
| "has_params (PyList vs) = False"

text \<open>\<^verbatim>\<open>a.params.get('partstat')\<close>\<close>

fun partstat :: "pyval \<Rightarrow> string option" where
  "partstat (PyStr s) = None"
| "partstat (ICal t ps i d) = map_of ps ''partstat''"
| "partstat (PyList vs) = None"

text \<open>\<^verbatim>\<open>a.to_ical().decode().replace('\n', '')\<close>, evaluated only for values that
  passed \<^verbatim>\<open>hasattr(a, 'params')\<close>.\<close>

fun serialized :: "pyval \<Rightarrow> string" where
  "serialized (PyStr s) = []"
| "serialized (ICal t ps i d) = filter (\<lambda>c. c \<noteq> CHR 0x0A) i"
| "serialized (PyList vs) = []"

text \<open>\<^verbatim>\<open>any(email in ... for email in known_emails)\<close>: Python's \<^verbatim>\<open>in\<close> on strings
  is containment as a contiguous substring.\<close>

definition is_known :: "string list \<Rightarrow> pyval \<Rightarrow> bool" where
  "is_known known_emails a = (\<exists>email \<in> set known_emails. sublist email (serialized a))"

text \<open>The normalisation of the attendee entry to a list.\<close>

fun attendees_of :: "pyval \<Rightarrow> pyval list" where
  "attendees_of (PyList as) = as"
| "attendees_of a = [a]"

definition partstats_of :: "string list \<Rightarrow> pyval list \<Rightarrow> string option list" where
  "partstats_of known_emails attendees =
     map partstat (filter (\<lambda>a. has_params a \<and> is_known known_emails a) attendees)"

definition stored_status :: "event \<Rightarrow> pyval" where
  "stored_status component =
     (case component ''status'' of Some s \<Rightarrow> s | None \<Rightarrow> PyStr ''CONFIRMED'')"

definition determine_status :: "event \<Rightarrow> string list \<Rightarrow> pyval" where
  "determine_status component known_emails =
     (case component ''attendee'' of
        Some att \<Rightarrow>
          if length known_emails > 0 then
            (let partstats = partstats_of known_emails (attendees_of att) in
             if Some ''ACCEPTED'' \<in> set partstats then PyStr ''CONFIRMED''
             else if Some ''DECLINED'' \<in> set partstats then PyStr ''CANCELLED''
             else if Some ''TENTATIVE'' \<in> set partstats \<or> Some ''NEEDS-ACTION'' \<in> set partstats
               then PyStr ''TENTATIVE''
             else stored_status component)
          else stored_status component
      | None \<Rightarrow> stored_status component)"

section \<open>Event filter\<close>

text \<open>Reading \<^verbatim>\<open>.dt\<close>: only a value object that has the attribute answers; on
  anything else Python raises \<^verbatim>\<open>AttributeError\<close>.\<close>

fun dt_attr :: "pyval \<Rightarrow> error + dt_value" where
  "dt_attr (ICal t ps i (Some v)) = Inr v"
| "dt_attr v = Inl AttributeError"

text \<open>The date that is compared with the cutoff: a \<^verbatim>\<open>datetime\<close> is cut to its
  \<^verbatim>\<open>date()\<close>, a date stays, and a value of another kind cannot be compared with a
  date (\<^verbatim>\<open>TypeError\<close>).\<close>

fun calendar_date :: "dt_value \<Rightarrow> error + date" where
  "calendar_date (DDateTime d h m s) = Inr d"
| "calendar_date (DDate d) = Inr d"
| "calendar_date DOther = Inl TypeError"

text \<open>\<^verbatim>\<open>component[key]\<close>\<close>

definition getitem :: "event \<Rightarrow> string \<Rightarrow> error + pyval" where
  "getitem component key = (case component key of None \<Rightarrow> Inl KeyError | Some v \<Rightarrow> Inr v)"

text \<open>The cutoff is \<^verbatim>\<open>None\<close> or a \<^verbatim>\<open>datetime.date\<close>; a date is always true in a
  condition, so \<^verbatim>\<open>if skip_events_before and ...\<close> tests that the cutoff is set.\<close>

definition should_skip_event :: "event \<Rightarrow> date option \<Rightarrow> error + bool" where
  "should_skip_event component skip_events_before =
     (case skip_events_before of
        None \<Rightarrow> Inr False
      | Some cutoff \<Rightarrow>
          if (component ''dtend'' \<noteq> None \<or> component ''dtstart'' \<noteq> None)
             \<and> component ''rrule'' = None
          then
            (case getitem component
                    (if component ''dtend'' \<noteq> None then ''dtend'' else ''dtstart'') of
               Inl e \<Rightarrow> Inl e
             | Inr v \<Rightarrow>
                 (case dt_attr v of
                    Inl e \<Rightarrow> Inl e
                  | Inr event_end \<Rightarrow>
                      (case calendar_date event_end of
                         Inl e \<Rightarrow> Inl e
                       | Inr event_end_date \<Rightarrow> Inr (date_less event_end_date cutoff))))
          else Inr False)"

section \<open>Identity obfuscator\<close>

text \<open>\<^verbatim>\<open>component['uid'].encode()\<close>: a string has the method, other objects have not.\<close>

fun encode :: "pyval \<Rightarrow> error + string" where
  "encode (PyStr s) = Inr s"
| "encode (ICal (Some s) ps i d) = Inr s"
| "encode (ICal None ps i d) = Inl AttributeError"
| "encode (PyList vs) = Inl AttributeError"

definition generate_uid :: "env \<Rightarrow> event \<Rightarrow> string \<Rightarrow> error + string" where
  "generate_uid env component domain =
     (case (case component ''uid'' of
              Some uid \<Rightarrow> encode uid
            | None \<Rightarrow> Inr (component_to_ical env component)) of
        Inl e \<Rightarrow> Inl e
      | Inr bytes \<Rightarrow> Inr (md5_hexdigest env bytes @ ''@'' @ domain))"

text \<open>
  The older module \<^verbatim>\<open>camerge.py\<close> at the root of the repository has another variant,
  \<^verbatim>\<open>obfuscate_uid\<close>: without an identifier (\<^verbatim>\<open>None\<close> or the empty string) it hashes
  a fresh random \<^verbatim>\<open>uuid4\<close>, here the argument \<open>fresh_uuid\<close>.
\<close>

definition obfuscate_uid :: "env \<Rightarrow> string \<Rightarrow> string option \<Rightarrow> string \<Rightarrow> string" where
  "obfuscate_uid env fresh_uuid maybe_uid domain =
     md5_hexdigest env
       (case maybe_uid of
          None \<Rightarrow> fresh_uuid
        | Some uid \<Rightarrow> if uid \<noteq> [] then uid else fresh_uuid)
     @ ''@'' @ domain"

section \<open>Event projector\<close>

text \<open>
  \<^verbatim>\<open>Component.add(name, value)\<close> of the library, for a value that is already a value
  object: it stores the value as it is under a new name, and collects the values in
  a list under a name that is already there. (The events that the parser delivers
  hold value objects only; a plain \<^verbatim>\<open>str\<close> would first be wrapped in the value type
  of the property, which the model leaves out.)
\<close>

definition add :: "string \<Rightarrow> pyval \<Rightarrow> event \<Rightarrow> event" where
  "add name v c =
     (case c name of
        None \<Rightarrow> c(name \<mapsto> v)
      | Some (PyList oldval) \<Rightarrow>
          (case v of
             PyList vs \<Rightarrow> c(name \<mapsto> PyList (oldval @ vs))
           | _ \<Rightarrow> c(name \<mapsto> PyList (oldval @ [v])))
      | Some oldval \<Rightarrow> c(name \<mapsto> PyList [oldval, v]))"

fun copy_loop :: "event \<Rightarrow> string list \<Rightarrow> event \<Rightarrow> event" where
  "copy_loop event [] copy = copy"
| "copy_loop event (key # keys) copy =
     copy_loop event keys
       (case event key of Some v \<Rightarrow> add key v copy | None \<Rightarrow> copy)"

definition copy_event :: "event \<Rightarrow> string list \<Rightarrow> event" where
  "copy_event event keys = copy_loop event keys Map.empty"

definition copied_keys :: "string list" where
  "copied_keys = [''dtstart'', ''dtend'', ''dtstamp'', ''rrule'', ''status'', ''summary'',
                  ''transp'', ''sequence'', ''recurrence-id'']"

text \<open>The body of the loop of \<^verbatim>\<open>__process_calendar_data\<close> for an event that is kept,
  up to the assignment of the status (the mapper follows it in the loop).\<close>

definition project_event ::
  "env \<Rightarrow> event \<Rightarrow> string \<Rightarrow> string list \<Rightarrow> string option \<Rightarrow> error + event" where
  "project_event env component calendar_domain known_emails busy_place_holder =
     (let event = copy_event component copied_keys in
      case generate_uid env component calendar_domain of
        Inl e \<Rightarrow> Inl e
      | Inr uid \<Rightarrow>
          (let event = event(''uid'' \<mapsto> PyStr uid);
               event = (case busy_place_holder of
                          Some placeholder \<Rightarrow>
                            if placeholder \<noteq> [] then event(''summary'' \<mapsto> PyStr placeholder)
                            else event
                        | None \<Rightarrow> event)
           in Inr (event(''status'' \<mapsto> determine_status component known_emails))))"

section \<open>Processing one source\<close>

fun process_components ::
  "env \<Rightarrow> string \<Rightarrow> string list \<Rightarrow> date option \<Rightarrow> string option \<Rightarrow>
   (event \<Rightarrow> event \<Rightarrow> event) option \<Rightarrow> component list \<Rightarrow> component list \<Rightarrow>
   error + component list" where
  "process_components env domain known cutoff ph mapper [] components = Inr components"
| "process_components env domain known cutoff ph mapper (Timezone tz # rest) components =
     process_components env domain known cutoff ph mapper rest (components @ [Timezone tz])"
| "process_components env domain known cutoff ph mapper (Event ev # rest) components =
     (case should_skip_event ev cutoff of
        Inl e \<Rightarrow> Inl e
      | Inr True \<Rightarrow> process_components env domain known cutoff ph mapper rest components
      | Inr False \<Rightarrow>
          (case project_event env ev domain known ph of
             Inl e \<Rightarrow> Inl e
           | Inr event \<Rightarrow>
               process_components env domain known cutoff ph mapper rest
                 (components @
                  [Event (case mapper of Some f \<Rightarrow> f event ev | None \<Rightarrow> event)])))"
| "process_components env domain known cutoff ph mapper (Other x # rest) components =
     process_components env domain known cutoff ph mapper rest components"

definition process_calendar_data ::
  "env \<Rightarrow> string \<Rightarrow> string \<Rightarrow> string list \<Rightarrow> date option \<Rightarrow> string option \<Rightarrow>
   (event \<Rightarrow> event \<Rightarrow> event) option \<Rightarrow> error + component list" where
  "process_calendar_data env calendar_data calendar_domain known_emails skip_events_before
     busy_place_holder event_mapper =
     (case from_ical env calendar_data of
        Inl e \<Rightarrow> Inl e
      | Inr loaded \<Rightarrow>
          process_components env calendar_domain known_emails skip_events_before
            busy_place_holder event_mapper loaded [])"

section \<open>Fetcher\<close>

text \<open>Python's \<^verbatim>\<open>str.replace(old, new)\<close>: every occurrence, from the left, without
  overlap; an empty \<open>old\<close> matches before every character and at the end.\<close>

function str_replace :: "string \<Rightarrow> string \<Rightarrow> string \<Rightarrow> string" where
  "str_replace old new s =
     (if old = [] then concat (map (\<lambda>c. new @ [c]) s) @ new
      else if s = [] then []
      else if prefix old s then new @ str_replace old new (drop (length old) s)
      else hd s # str_replace old new (tl s))"
  by pat_completeness auto
termination
  by (relation "measure (\<lambda>(old, new, s). length s)") auto

declare str_replace.simps [simp del]

text \<open>
  Everything inside the \<^verbatim>\<open>try\<close> block that raises is caught by
  \<^verbatim>\<open>except Exception\<close>, logged, and the function returns \<^verbatim>\<open>None\<close>; a descriptor
  with none of the schemes falls through to the same \<^verbatim>\<open>return None\<close>.
\<close>

definition get_calendar_data :: "env \<Rightarrow> string \<Rightarrow> string option" where
  "get_calendar_data env calendar_data =
     (if prefix ''file://'' calendar_data then
        (case read_file env (drop 7 calendar_data) of
           Inr content \<Rightarrow> Some content
         | Inl e \<Rightarrow> None)
      else if prefix ''http'' calendar_data \<or> prefix ''webcal://'' calendar_data then
        (let calendar_data =
               (if prefix ''webcal://'' calendar_data
                then str_replace ''webcal'' ''http'' calendar_data
                else calendar_data)
         in case urlopen env calendar_data of
              Inr content \<Rightarrow> Some content
            | Inl e \<Rightarrow> None)
      else if prefix ''data://'' calendar_data then Some (drop 7 calendar_data)
      else None)"

section \<open>Merge orchestrator\<close>

text \<open>\<^verbatim>\<open>calendar.add_component(component)\<close> for every component of the list.\<close>

definition add_components :: "component list \<Rightarrow> calendar \<Rightarrow> calendar" where
  "add_components components cal = cal\<lparr>subcomponents := subcomponents cal @ components\<rparr>"

text \<open>The loop over the sources. \<^verbatim>\<open>not calendar_data\<close> holds for \<^verbatim>\<open>None\<close> and for the
  empty string. There is no \<^verbatim>\<open>try\<close> around the processing of a source: what it
  raises leaves the loop and the function.\<close>

fun merge_loop ::
  "env \<Rightarrow> string list option \<Rightarrow> string \<Rightarrow> string \<Rightarrow> date option \<Rightarrow>
   (string \<times> bool) list \<Rightarrow> calendar \<Rightarrow> error + calendar" where
  "merge_loop env known_emails busy_placeholder calendar_domain skip_events_before [] cal =
     Inr cal"
| "merge_loop env known_emails busy_placeholder calendar_domain skip_events_before
     ((url, anonymize) # rest) cal =
     (case get_calendar_data env url of
        None \<Rightarrow>
          merge_loop env known_emails busy_placeholder calendar_domain skip_events_before
            rest cal
      | Some calendar_data \<Rightarrow>
          if calendar_data = [] then
            merge_loop env known_emails busy_placeholder calendar_domain skip_events_before
              rest cal
          else
            (case process_calendar_data env calendar_data calendar_domain
                    (case known_emails of Some es \<Rightarrow> es | None \<Rightarrow> [])
                    skip_events_before
                    (if anonymize then Some busy_placeholder else None)
                    None of
               Inl e \<Rightarrow> Inl e
             | Inr components \<Rightarrow>
                 merge_loop env known_emails busy_placeholder calendar_domain
                   skip_events_before rest (add_components components cal)))"

text \<open>The calendar that \<^verbatim>\<open>merge_calendars\<close> builds, before it is serialised.\<close>

definition merged_calendar ::
  "env \<Rightarrow> (string \<times> bool) list \<Rightarrow> string list option \<Rightarrow> string \<Rightarrow> string \<Rightarrow> string \<Rightarrow>
   date option \<Rightarrow> error + calendar" where
  "merged_calendar env calendar_data known_emails calendar_name busy_placeholder
     calendar_domain skip_events_before =
     merge_loop env known_emails busy_placeholder calendar_domain skip_events_before
       calendar_data \<lparr>prodid = calendar_name, version = ''2.0'', subcomponents = []\<rparr>"

definition merge_calendars ::
  "env \<Rightarrow> (string \<times> bool) list \<Rightarrow> string list option \<Rightarrow> string \<Rightarrow>
   string \<Rightarrow> string \<Rightarrow> date option \<Rightarrow> error + string" where
  "merge_calendars env calendar_data known_emails calendar_name
     busy_placeholder calendar_domain skip_events_before =
     (case merged_calendar env calendar_data known_emails calendar_name busy_placeholder
             calendar_domain skip_events_before of
        Inl e \<Rightarrow> Inl e
      | Inr cal \<Rightarrow> Inr (calendar_to_ical env cal))"

section \<open>Notions of the specification\<close>


text \<open>The end field if present, else the start field.\<close>

definition end_or_start :: "event \<Rightarrow> pyval option" where
  "end_or_start component =
     (case component ''dtend'' of Some v \<Rightarrow> Some v | None \<Rightarrow> component ''dtstart'')"

fun is_timezone :: "component \<Rightarrow> bool" where
  "is_timezone (Timezone tz) = True"
| "is_timezone c = False"

text \<open>What the orchestrator goes on with after the fetch of a source: nothing when
  the fetcher returned no data or the empty text.\<close>

definition fetched :: "env \<Rightarrow> string \<Rightarrow> string option" where
  "fetched env url =
     (case get_calendar_data env url of
        None \<Rightarrow> None
      | Some calendar_data \<Rightarrow> if calendar_data = [] then None else Some calendar_data)"

text \<open>The timezone components of a source that was fetched and parsed.\<close>

definition source_timezones :: "env \<Rightarrow> string \<times> bool \<Rightarrow> component list" where
  "source_timezones env source =
     (case fetched env (fst source) of
        None \<Rightarrow> []
      | Some calendar_data \<Rightarrow>
          (case from_ical env calendar_data of
             Inl e \<Rightarrow> []
           | Inr parsed \<Rightarrow> filter is_timezone parsed))"

text \<open>The retrieval errors of a source: the file cannot be read, the request fails,
  or the descriptor has none of the schemes.\<close>

definition retrieval_error :: "env \<Rightarrow> string \<Rightarrow> bool" where
  "retrieval_error env url =
     ((prefix ''file://'' url \<and> isl (read_file env (drop 7 url)))
      \<or> (prefix ''http'' url \<and> isl (urlopen env url))
      \<or> (prefix ''webcal://'' url \<and> isl (urlopen env (str_replace ''webcal'' ''http'' url)))
      \<or> (\<not> prefix ''file://'' url \<and> \<not> prefix ''http'' url \<and> \<not> prefix ''webcal://'' url
          \<and> \<not> prefix ''data://'' url))"

text \<open>An event on which neither the filter nor the obfuscator raises: its
  identifier, when it has one, is a string, and the field the filter reads is a
  date or a date with a time.\<close>

definition well_typed :: "event \<Rightarrow> bool" where
  "well_typed ev =
     ((case ev ''uid'' of Some uid \<Rightarrow> \<not> isl (encode uid) | None \<Rightarrow> True)
      \<and> (case end_or_start ev of
            Some v \<Rightarrow> (case dt_attr v of Inr d \<Rightarrow> \<not> isl (calendar_date d) | Inl e \<Rightarrow> False)
          | None \<Rightarrow> True))"

text \<open>The values of a property in the events of a calendar, in order.\<close>

definition event_fields :: "string \<Rightarrow> calendar \<Rightarrow> pyval option list" where
  "event_fields key cal =
     concat (map (\<lambda>c. case c of Event ev \<Rightarrow> [ev key] | _ \<Rightarrow> []) (subcomponents cal))"

section \<open>An example\<close>

text \<open>Two attendees as in the test data of the repository, and an event with both.\<close>

definition attendee_confirmed :: pyval where
  "attendee_confirmed =
     ICal (Some ''mailto:confirmed@example.com'') [(''partstat'', ''ACCEPTED'')]
       ''mailto:confirmed@example.com'' None"

definition attendee_declined :: pyval where
  "attendee_declined =
     ICal (Some ''mailto:declined@example.com'') [(''partstat'', ''DECLINED'')]
       ''mailto:declined@example.com'' None"

definition meeting :: event where
  "meeting =
     [''uid'' \<mapsto> ICal (Some ''event-1'') [] ''event-1'' None,
      ''summary'' \<mapsto> ICal (Some ''Secret meeting'') [] ''Secret meeting'' None,
      ''dtend'' \<mapsto> ICal None [] ''20200504T110000''
                    (Some (DDateTime (Date 2020 5 4) 11 0 0)),
      ''status'' \<mapsto> ICal (Some ''TENTATIVE'') [] ''TENTATIVE'' None,
      ''attendee'' \<mapsto> PyList [attendee_declined, attendee_confirmed]]"

definition weekly :: event where
  "weekly = meeting(''rrule'' \<mapsto> ICal None [] ''FREQ=WEEKLY'' None)"

text \<open>An environment: a stand-in for the digest and the serialisers, a parser that
  knows two calendar texts and fails on every other text, a file system with one
  file and a network with one resource.\<close>

definition example_env :: env where
  "example_env =
     \<lparr>md5_hexdigest = (\<lambda>s. ''#'' @ s),
      component_to_ical = (\<lambda>ev. ''VEVENT''),
      from_ical = (\<lambda>data.
         if data = ''CAL-A'' then Inr [Timezone ''Europe/Prague'', Event meeting, Other ''VTODO'']
         else if data = ''CAL-B'' then Inr [Timezone ''UTC'', Event weekly]
         else Inl ValueError),
      read_file = (\<lambda>path. if path = ''/a.ics'' then Inr ''CAL-A'' else Inl OSError),
      urlopen = (\<lambda>url. if url = ''http://example.com/b.ics'' then Inr ''CAL-B''
                        else Inl URLError),
      calendar_to_ical = (\<lambda>cal. ''VCALENDAR '' @ prodid cal)\<rparr>"

section \<open>Status resolution\<close>



text \<open>Without a line feed in it, the serialised form is the text that \<^verbatim>\<open>to_ical\<close>
  gives.\<close>

lemma serialized_no_newline: "CHR 0x0A \<notin> set i \<Longrightarrow> serialized (ICal t ps i d) = i"
  by (auto simp: filter_id_conv)



section \<open>Cutoff filter\<close>

lemma date_less_irrefl: "\<not> date_less d d"
  by (cases d) simp

lemma date_less_trans: "date_less a b \<Longrightarrow> date_less b c \<Longrightarrow> date_less a c"
  by (cases a; cases b; cases c) auto

lemma date_less_linear: "date_less a b \<or> a = b \<or> date_less b a"
  by (cases a; cases b) auto

text \<open>
  C3. The filter answers False when no cutoff date is set, when the event has
  neither a start nor an end field, and when the event has a recurrence rule.
  Otherwise it takes the end field if present, else the start field; when this is
  a date, or a date with a time, whose time is dropped, the filter answers True
  exactly when that date is strictly earlier than the cutoff date.
\<close>

theorem should_skip_event_spec:
  "should_skip_event component None = Inr False
   \<and> (component ''dtend'' = None \<and> component ''dtstart'' = None \<longrightarrow>
        should_skip_event component cutoff_opt = Inr False)
   \<and> (component ''rrule'' \<noteq> None \<longrightarrow> should_skip_event component cutoff_opt = Inr False)
   \<and> (component ''rrule'' = None \<and> end_or_start component = Some (ICal t ps i (Some dv))
        \<and> (dv = DDate on_day \<or> dv = DDateTime on_day h m s) \<longrightarrow>
        should_skip_event component (Some cutoff) = Inr (date_less on_day cutoff))"
  by (auto simp: should_skip_event_def end_or_start_def getitem_def
           split: option.splits)

text \<open>The meeting ended on 4 May 2020 at 11:00. It is skipped for the cutoff
  1 January 2021, kept for the cutoff 4 May 2020, and the same event with a
  recurrence rule is kept.\<close>

theorem should_skip_event_spec_witness:
  "should_skip_event meeting (Some (Date 2021 1 1)) = Inr True
   \<and> should_skip_event meeting (Some (Date 2020 5 4)) = Inr False
   \<and> should_skip_event weekly (Some (Date 2021 1 1)) = Inr False"
proof -
  have e: "end_or_start meeting =
             Some (ICal None [] ''20200504T110000'' (Some (DDateTime (Date 2020 5 4) 11 0 0)))"
    by (simp add: end_or_start_def meeting_def)
  have r: "meeting ''rrule'' = None" "weekly ''rrule'' \<noteq> None"
    by (simp_all add: meeting_def weekly_def)
  show ?thesis
    using should_skip_event_spec [of meeting "Some (Date 2021 1 1)" None "[]"
            "''20200504T110000''" "DDateTime (Date 2020 5 4) 11 0 0" "Date 2020 5 4" 11 0 0
            "Date 2021 1 1"]
          should_skip_event_spec [of meeting "Some (Date 2020 5 4)" None "[]"
            "''20200504T110000''" "DDateTime (Date 2020 5 4) 11 0 0" "Date 2020 5 4" 11 0 0
            "Date 2020 5 4"]
          should_skip_event_spec [of weekly "Some (Date 2021 1 1)"]
          e r
    by simp
qed

section \<open>Derived identifiers\<close>

text \<open>
  C2. The derived identifier is a function of the original identifier of the event
  (of the serialised content of the event when it has no identifier) and of the
  domain, and of nothing else: two events with the same identifier string, or two
  events without identifier and with the same serialised content, get the same
  derived identifier for the same domain, and it is the digest of that string,
  followed by \<open>@\<close> and the domain.
\<close>

theorem generate_uid_deterministic:
  assumes "(component ''uid'' = Some uid \<and> component' ''uid'' = Some uid' \<and>
            encode uid = Inr ident \<and> encode uid' = Inr ident)
         \<or> (component ''uid'' = None \<and> component' ''uid'' = None \<and>
            component_to_ical env component = ident \<and>
            component_to_ical env component' = ident)"
  shows "generate_uid env component domain = Inr (md5_hexdigest env ident @ ''@'' @ domain)
       \<and> generate_uid env component' domain = generate_uid env component domain"
  using assms by (auto simp: generate_uid_def)

text \<open>The meeting and the weekly event have the same identifier and differ in the
  recurrence rule: they get the same derived identifier.\<close>

theorem generate_uid_deterministic_witness:
  "meeting ''uid'' = weekly ''uid'' \<and> meeting ''rrule'' \<noteq> weekly ''rrule''
   \<and> generate_uid example_env meeting ''camerge'' = Inr ''#event-1@camerge''
   \<and> generate_uid example_env weekly ''camerge'' = Inr ''#event-1@camerge''"
proof -
  have u: "meeting ''uid'' = Some (ICal (Some ''event-1'') [] ''event-1'' None)"
    "weekly ''uid'' = Some (ICal (Some ''event-1'') [] ''event-1'' None)"
    "meeting ''rrule'' \<noteq> weekly ''rrule''"
    by (simp_all add: meeting_def weekly_def)
  have "generate_uid example_env meeting ''camerge''
          = Inr (md5_hexdigest example_env ''event-1'' @ ''@'' @ ''camerge'')
        \<and> generate_uid example_env weekly ''camerge''
          = generate_uid example_env meeting ''camerge''"
    using u
      generate_uid_deterministic [where component = meeting and component' = weekly
        and uid = "ICal (Some ''event-1'') [] ''event-1'' None"
        and uid' = "ICal (Some ''event-1'') [] ''event-1'' None"
        and ident = "''event-1''" and env = example_env and domain = "''camerge''"]
    by simp
  then show ?thesis
    using u by (simp add: example_env_def)
qed

text \<open>The variant of the older module agrees with it on an event that has a
  non-empty identifier, and hashes the fresh random value otherwise.\<close>

lemma obfuscate_uid_agrees:
  "uid \<noteq> [] \<Longrightarrow> component ''uid'' = Some (PyStr uid) \<Longrightarrow>
   generate_uid env component domain = Inr (obfuscate_uid env fresh (Some uid) domain)"
  by (simp add: generate_uid_def obfuscate_uid_def)

lemma obfuscate_uid_fresh:
  "obfuscate_uid env fresh None domain = md5_hexdigest env fresh @ ''@'' @ domain"
  by (simp add: obfuscate_uid_def)

section \<open>Projection of an event\<close>

lemma add_fresh: "copy name = None \<Longrightarrow> add name v copy = copy(name \<mapsto> v)"
  by (simp add: add_def)

lemma copy_loop_lookup:
  "distinct keys \<Longrightarrow> \<forall>k \<in> set keys. copy k = None \<Longrightarrow>
   copy_loop event keys copy k = (if k \<in> set keys then event k else copy k)"
proof (induction keys arbitrary: copy)
  case Nil
  then show ?case by simp
next
  case (Cons key keys)
  let ?copy' = "case event key of Some v \<Rightarrow> add key v copy | None \<Rightarrow> copy"
  have fresh: "copy key = None" using Cons.prems(2) by simp
  have copy': "?copy' = (case event key of Some v \<Rightarrow> copy(key \<mapsto> v) | None \<Rightarrow> copy)"
    using fresh by (simp add: add_fresh split: option.splits)
  have "\<forall>k \<in> set keys. ?copy' k = None"
    using Cons.prems by (auto simp: copy' split: option.splits)
  with Cons.prems(1) have
    "copy_loop event keys ?copy' k = (if k \<in> set keys then event k else ?copy' k)"
    by (intro Cons.IH) simp_all
  then show ?case
    using fresh Cons.prems(1) by (auto simp: copy' split: option.splits)
qed

lemma copy_event_lookup:
  "copy_event event copied_keys k = (if k \<in> set copied_keys then event k else None)"
proof -
  have "distinct copied_keys" by (simp add: copied_keys_def)
  then show ?thesis unfolding copy_event_def by (subst copy_loop_lookup) simp_all
qed

lemma project_event_Inr:
  "project_event env component domain known ph = Inr out \<longleftrightarrow>
   (\<exists>uid. generate_uid env component domain = Inr uid \<and>
      out = (let event = (copy_event component copied_keys)(''uid'' \<mapsto> PyStr uid);
                 event = (case ph of
                            Some placeholder \<Rightarrow>
                              if placeholder \<noteq> [] then event(''summary'' \<mapsto> PyStr placeholder)
                              else event
                          | None \<Rightarrow> event)
             in event(''status'' \<mapsto> determine_status component known)))"
  unfolding project_event_def Let_def by (cases "generate_uid env component domain") auto

lemma project_event_lookup:
  assumes "project_event env component domain known ph = Inr out"
  shows "out k =
    (if k = ''status'' then Some (determine_status component known)
     else if k = ''summary'' \<and> ph \<noteq> None \<and> ph \<noteq> Some [] then map_option PyStr ph
     else if k = ''uid'' then
       (case generate_uid env component domain of
          Inr uid \<Rightarrow> Some (PyStr uid) | Inl e \<Rightarrow> None)
     else if k \<in> set copied_keys then component k
     else None)"
proof -
  from assms obtain uid where uid: "generate_uid env component domain = Inr uid"
    and out: "out = (let event = (copy_event component copied_keys)(''uid'' \<mapsto> PyStr uid);
                 event = (case ph of
                            Some placeholder \<Rightarrow>
                              if placeholder \<noteq> [] then event(''summary'' \<mapsto> PyStr placeholder)
                              else event
                          | None \<Rightarrow> event)
             in event(''status'' \<mapsto> determine_status component known))"
    unfolding project_event_Inr by blast
  show ?thesis
    unfolding out Let_def uid
    by (cases ph) (simp_all add: copy_event_lookup)
qed

lemma project_event_no_attendee:
  "project_event env component domain known ph = Inr out \<Longrightarrow> out ''attendee'' = None"
  by (simp add: project_event_lookup copied_keys_def)

lemma project_event_empty_placeholder:
  "project_event env component domain known (Some []) =
   project_event env component domain known None"
  by (cases "generate_uid env component domain") (simp_all add: project_event_def)

lemma project_event_returns:
  "well_typed ev \<Longrightarrow> \<exists>out. project_event env ev domain known ph = Inr out"
  unfolding project_event_Inr
  by (cases "ev ''uid''")
     (auto simp: well_typed_def generate_uid_def split: sum.splits)

lemma should_skip_event_returns:
  "well_typed ev \<Longrightarrow> \<exists>b. should_skip_event ev cutoff = Inr b"
  by (auto simp: well_typed_def should_skip_event_def end_or_start_def getitem_def
           split: option.splits sum.splits)

section \<open>The components of one source\<close>

lemma process_components_timezones:
  "process_components env domain known cutoff ph mapper comps acc = Inr out \<Longrightarrow>
   filter is_timezone out = filter is_timezone acc @ filter is_timezone comps"
  by (induction env domain known cutoff ph mapper comps acc rule: process_components.induct)
     (auto split: sum.splits bool.splits if_splits)

lemma process_components_no_attendee:
  "process_components env domain known cutoff ph None comps acc = Inr out \<Longrightarrow>
   \<forall>ev. Event ev \<in> set acc \<longrightarrow> ev ''attendee'' = None \<Longrightarrow>
   \<forall>ev. Event ev \<in> set out \<longrightarrow> ev ''attendee'' = None"
proof (induction comps arbitrary: acc)
  case Nil
  then show ?case by simp
next
  case (Cons c comps)
  show ?case
  proof (cases c)
    case (Timezone tz)
    with Cons.prems show ?thesis
      by (intro Cons.IH [of "acc @ [Timezone tz]"]) auto
  next
    case (Other x)
    with Cons.prems show ?thesis
      by (intro Cons.IH [of acc]) auto
  next
    case (Event ev)
    show ?thesis
    proof (cases "should_skip_event ev cutoff")
      case (Inl e)
      with Cons.prems Event show ?thesis by simp
    next
      case (Inr skip)
      show ?thesis
      proof (cases skip)
        case True
        with Cons.prems Event Inr show ?thesis
          by (intro Cons.IH [of acc]) auto
      next
        case False
        show ?thesis
        proof (cases "project_event env ev domain known ph")
          case (Inl e)
          with Cons.prems Event \<open>should_skip_event ev cutoff = Inr skip\<close> False
          show ?thesis by simp
        next
          case proj: (Inr event)
          have "process_components env domain known cutoff ph None comps
                  (acc @ [Event event]) = Inr out"
            using Cons.prems(1) Event Inr False proj by simp
          moreover have "\<forall>ev. Event ev \<in> set (acc @ [Event event]) \<longrightarrow> ev ''attendee'' = None"
            using Cons.prems(2) project_event_no_attendee [OF proj] by auto
          ultimately show ?thesis by (rule Cons.IH)
        qed
      qed
    qed
  qed
qed

lemma process_components_empty_placeholder:
  "process_components env domain known cutoff (Some []) mapper comps acc =
   process_components env domain known cutoff None mapper comps acc"
proof (induction comps arbitrary: acc)
  case Nil
  then show ?case by simp
next
  case (Cons c comps)
  then show ?case
    by (cases c)
       (simp_all add: project_event_empty_placeholder split: sum.splits bool.splits)
qed

lemma process_components_returns:
  "\<forall>ev. Event ev \<in> set comps \<longrightarrow> well_typed ev \<Longrightarrow>
   \<exists>out. process_components env domain known cutoff ph mapper comps acc = Inr out"
proof (induction comps arbitrary: acc)
  case Nil
  then show ?case by simp
next
  case (Cons c comps)
  then have IH: "\<exists>out. process_components env domain known cutoff ph mapper comps acc' = Inr out"
    for acc' by simp
  show ?case
  proof (cases c)
    case (Event ev)
    with Cons.prems have wt: "well_typed ev" by simp
    from should_skip_event_returns [OF wt] obtain b where
      b: "should_skip_event ev cutoff = Inr b" by blast
    from project_event_returns [OF wt] obtain event where
      event: "project_event env ev domain known ph = Inr event" by blast
    show ?thesis
      using IH by (cases b) (simp_all add: Event b event)
  qed (simp_all add: IH)
qed

section \<open>Fetching\<close>

lemma scheme_file: "prefix ''file://'' url \<Longrightarrow>
  \<not> prefix ''http'' url \<and> \<not> prefix ''webcal://'' url \<and> \<not> prefix ''data://'' url"
  by (cases url) auto

lemma scheme_http: "prefix ''http'' url \<Longrightarrow>
  \<not> prefix ''file://'' url \<and> \<not> prefix ''webcal://'' url \<and> \<not> prefix ''data://'' url"
  by (cases url) auto

lemma scheme_webcal: "prefix ''webcal://'' url \<Longrightarrow>
  \<not> prefix ''file://'' url \<and> \<not> prefix ''http'' url \<and> \<not> prefix ''data://'' url"
  by (cases url) auto

lemma isl_case: "(case r of Inr content \<Rightarrow> Some content | Inl e \<Rightarrow> None) = None \<longleftrightarrow> isl r"
  by (cases r) auto

lemma retrieval_error_iff: "get_calendar_data env url = None \<longleftrightarrow> retrieval_error env url"
proof -
  consider (is_file) "prefix ''file://'' url" | (is_http) "prefix ''http'' url"
    | (is_webcal) "prefix ''webcal://'' url"
    | (is_data) "prefix ''data://'' url" "\<not> prefix ''file://'' url" "\<not> prefix ''http'' url"
        "\<not> prefix ''webcal://'' url"
    | (no_scheme) "\<not> prefix ''file://'' url" "\<not> prefix ''http'' url"
        "\<not> prefix ''webcal://'' url" "\<not> prefix ''data://'' url"
    by blast
  then show ?thesis
  proof cases
    case is_file
    with scheme_file [OF is_file] show ?thesis
      by (simp add: get_calendar_data_def retrieval_error_def isl_case)
  next
    case is_http
    with scheme_http [OF is_http] show ?thesis
      by (simp add: get_calendar_data_def retrieval_error_def isl_case)
  next
    case is_webcal
    with scheme_webcal [OF is_webcal] show ?thesis
      by (simp add: get_calendar_data_def retrieval_error_def isl_case)
  next
    case is_data
    then show ?thesis
      by (simp add: get_calendar_data_def retrieval_error_def)
  next
    case no_scheme
    then show ?thesis
      by (simp add: get_calendar_data_def retrieval_error_def)
  qed
qed

section \<open>The loop over the sources\<close>

lemma merge_loop_skip:
  "fetched env url = None \<Longrightarrow>
   merge_loop env known ph domain cutoff ((url, anonymize) # rest) cal =
   merge_loop env known ph domain cutoff rest cal"
  by (auto simp: fetched_def split: option.splits if_splits)

lemma merge_loop_process:
  "fetched env url = Some content \<Longrightarrow>
   merge_loop env known ph domain cutoff ((url, anonymize) # rest) cal =
     (case process_calendar_data env content domain
             (case known of Some es \<Rightarrow> es | None \<Rightarrow> []) cutoff
             (if anonymize then Some ph else None) None of
        Inl e \<Rightarrow> Inl e
      | Inr components \<Rightarrow>
          merge_loop env known ph domain cutoff rest (add_components components cal))"
  by (auto simp: fetched_def split: option.splits if_splits)

lemma merge_loop_append:
  "merge_loop env known ph domain cutoff (pre @ rest) cal =
     (case merge_loop env known ph domain cutoff pre cal of
        Inl e \<Rightarrow> Inl e
      | Inr cal' \<Rightarrow> merge_loop env known ph domain cutoff rest cal')"
proof (induction pre arbitrary: cal)
  case Nil
  then show ?case by simp
next
  case (Cons src pre)
  obtain url anonymize where src: "src = (url, anonymize)" by (cases src)
  show ?case
  proof (cases "fetched env url")
    case None
    then show ?thesis
      unfolding src append_Cons by (simp only: merge_loop_skip Cons.IH)
  next
    case (Some content)
    then show ?thesis
      unfolding src append_Cons
      by (simp only: merge_loop_process Cons.IH split: sum.splits) simp
  qed
qed

lemma merge_loop_skip_middle:
  "fetched env url = None \<Longrightarrow>
   merge_loop env known ph domain cutoff (pre @ (url, anonymize) # post) cal =
   merge_loop env known ph domain cutoff (pre @ post) cal"
  by (simp only: merge_loop_append [of _ _ _ _ _ pre] merge_loop_skip)

lemma merge_loop_all_skipped:
  "\<forall>src \<in> set sources. fetched env (fst src) = None \<Longrightarrow>
   merge_loop env known ph domain cutoff sources cal = Inr cal"
proof (induction sources)
  case Nil
  then show ?case by simp
next
  case (Cons src sources)
  obtain url anonymize where src: "src = (url, anonymize)" by (cases src)
  from Cons show ?case
    unfolding src by (simp add: merge_loop_skip del: merge_loop.simps)
qed

lemma merge_loop_parse_error:
  "fetched env url = Some content \<Longrightarrow> from_ical env content = Inl e \<Longrightarrow>
   merge_loop env known ph domain cutoff ((url, anonymize) # rest) cal = Inl e"
  by (simp add: merge_loop_process process_calendar_data_def del: merge_loop.simps)

lemma process_calendar_data_timezones:
  "process_calendar_data env content domain known cutoff ph mapper = Inr out \<Longrightarrow>
   \<exists>parsed. from_ical env content = Inr parsed
      \<and> filter is_timezone out = filter is_timezone parsed"
  unfolding process_calendar_data_def
  by (auto split: sum.splits dest: process_components_timezones)

lemma process_calendar_data_no_attendee:
  "process_calendar_data env content domain known cutoff ph None = Inr out \<Longrightarrow>
   \<forall>ev. Event ev \<in> set out \<longrightarrow> ev ''attendee'' = None"
  unfolding process_calendar_data_def
  by (cases "from_ical env content") (auto dest: process_components_no_attendee)

lemma merge_loop_timezones:
  "merge_loop env known ph domain cutoff sources cal = Inr out \<Longrightarrow>
   filter is_timezone (subcomponents out) =
     filter is_timezone (subcomponents cal) @ concat (map (source_timezones env) sources)"
proof (induction sources arbitrary: cal)
  case Nil
  then show ?case by simp
next
  case (Cons src sources)
  obtain url anonymize where src: "src = (url, anonymize)" by (cases src)
  show ?case
  proof (cases "fetched env url")
    case None
    then have "merge_loop env known ph domain cutoff sources cal = Inr out"
      using Cons.prems unfolding src by (simp only: merge_loop_skip)
    from Cons.IH [OF this] show ?thesis
      using None by (simp add: src source_timezones_def)
  next
    case (Some content)
    from Cons.prems obtain components where
      comps: "process_calendar_data env content domain
                (case known of Some es \<Rightarrow> es | None \<Rightarrow> []) cutoff
                (if anonymize then Some ph else None) None = Inr components"
      and rest: "merge_loop env known ph domain cutoff sources (add_components components cal)
                 = Inr out"
      unfolding src merge_loop_process [OF Some] by (auto split: sum.splits)
    from process_calendar_data_timezones [OF comps] obtain parsed where
      parsed: "from_ical env content = Inr parsed"
        "filter is_timezone components = filter is_timezone parsed"
      by blast
    from Cons.IH [OF rest] show ?thesis
      using parsed Some by (simp add: src source_timezones_def add_components_def)
  qed
qed

lemma merge_loop_no_attendee:
  "merge_loop env known ph domain cutoff sources cal = Inr out \<Longrightarrow>
   \<forall>ev. Event ev \<in> set (subcomponents cal) \<longrightarrow> ev ''attendee'' = None \<Longrightarrow>
   \<forall>ev. Event ev \<in> set (subcomponents out) \<longrightarrow> ev ''attendee'' = None"
proof (induction sources arbitrary: cal)
  case Nil
  then show ?case by simp
next
  case (Cons src sources)
  obtain url anonymize where src: "src = (url, anonymize)" by (cases src)
  show ?case
  proof (cases "fetched env url")
    case None
    then have "merge_loop env known ph domain cutoff sources cal = Inr out"
      using Cons.prems(1) unfolding src by (simp only: merge_loop_skip)
    then show ?thesis using Cons.prems(2) by (rule Cons.IH)
  next
    case (Some content)
    from Cons.prems(1) obtain components where
      comps: "process_calendar_data env content domain
                (case known of Some es \<Rightarrow> es | None \<Rightarrow> []) cutoff
                (if anonymize then Some ph else None) None = Inr components"
      and rest: "merge_loop env known ph domain cutoff sources (add_components components cal)
                 = Inr out"
      unfolding src merge_loop_process [OF Some] by (auto split: sum.splits)
    have "\<forall>ev. Event ev \<in> set (subcomponents (add_components components cal))
            \<longrightarrow> ev ''attendee'' = None"
      using Cons.prems(2) process_calendar_data_no_attendee [OF comps]
      by (auto simp: add_components_def)
    with rest show ?thesis by (rule Cons.IH)
  qed
qed

lemma merge_loop_empty_placeholder:
  "merge_loop env known [] domain cutoff sources cal =
   merge_loop env known [] domain cutoff (map (\<lambda>(url, anonymize). (url, False)) sources) cal"
proof (induction sources arbitrary: cal)
  case Nil
  then show ?case by simp
next
  case (Cons src sources)
  obtain url anonymize where src: "src = (url, anonymize)" by (cases src)
  show ?case
  proof (cases "fetched env url")
    case None
    then show ?thesis
      unfolding src by (simp add: merge_loop_skip Cons.IH del: merge_loop.simps)
  next
    case (Some content)
    have "process_calendar_data env content domain (case known of Some es \<Rightarrow> es | None \<Rightarrow> [])
            cutoff (if anonymize then Some [] else None) None =
          process_calendar_data env content domain (case known of Some es \<Rightarrow> es | None \<Rightarrow> [])
            cutoff None None"
      by (simp add: process_calendar_data_def process_components_empty_placeholder
               split: sum.splits)
    then show ?thesis
      unfolding src using Some
      by (simp add: merge_loop_process Cons.IH del: merge_loop.simps split: sum.splits)
  qed
qed

lemma merge_loop_returns:
  "\<forall>src \<in> set sources. \<forall>content. fetched env (fst src) = Some content \<longrightarrow>
     (\<exists>parsed. from_ical env content = Inr parsed
        \<and> (\<forall>ev. Event ev \<in> set parsed \<longrightarrow> well_typed ev)) \<Longrightarrow>
   \<exists>out. merge_loop env known ph domain cutoff sources cal = Inr out"
proof (induction sources arbitrary: cal)
  case Nil
  then show ?case by simp
next
  case (Cons src sources)
  obtain url anonymize where src: "src = (url, anonymize)" by (cases src)
  from Cons.prems have IH: "\<exists>out. merge_loop env known ph domain cutoff sources cal' = Inr out"
    for cal' by (intro Cons.IH) simp
  show ?case
  proof (cases "fetched env url")
    case None
    then show ?thesis unfolding src by (simp only: merge_loop_skip IH)
  next
    case (Some content)
    with Cons.prems obtain parsed where parsed: "from_ical env content = Inr parsed"
      "\<forall>ev. Event ev \<in> set parsed \<longrightarrow> well_typed ev"
      unfolding src by auto
    from process_components_returns [OF parsed(2), of env domain
           "case known of Some es \<Rightarrow> es | None \<Rightarrow> []" cutoff
           "if anonymize then Some ph else None" None "[]"]
    obtain components where
      "process_calendar_data env content domain (case known of Some es \<Rightarrow> es | None \<Rightarrow> [])
         cutoff (if anonymize then Some ph else None) None = Inr components"
      unfolding process_calendar_data_def parsed(1) by auto
    then show ?thesis
      unfolding src merge_loop_process [OF Some] using IH by simp
  qed
qed

section \<open>Evaluation of the example\<close>

lemmas example_eval =
  merged_calendar_def get_calendar_data_def example_env_def
  process_calendar_data_def should_skip_event_def project_event_def generate_uid_def
  getitem_def copy_event_def copied_keys_def add_def add_components_def
  determine_status_def stored_status_def
  meeting_def weekly_def str_replace.simps

section \<open>Failures of the sources\<close>

text \<open>
  C4 (as amended). The orchestrator recovers from a fetch that gives nothing: when
  every source fails to fetch, or gives the empty text, \<^verbatim>\<open>merge_calendars\<close> returns
  the empty merged calendar, serialised. It does not recover from a parse failure:
  when the sources before it were merged without error and the parser fails on the
  fetched text of a source, \<^verbatim>\<open>merge_calendars\<close> returns no calendar, and the
  parser's error reaches the caller.
\<close>

theorem merge_calendars_failures:
  "((\<forall>src \<in> set sources. fetched env (fst src) = None) \<longrightarrow>
      merge_calendars env sources known name ph domain cutoff =
        Inr (calendar_to_ical env \<lparr>prodid = name, version = ''2.0'', subcomponents = []\<rparr>))
   \<and> (merged_calendar env pre known name ph domain cutoff = Inr cal
        \<and> fetched env url = Some content \<and> from_ical env content = Inl e \<longrightarrow>
      merge_calendars env (pre @ (url, anonymize) # post) known name ph domain cutoff = Inl e)"
  by (simp add: merge_calendars_def merged_calendar_def merge_loop_all_skipped
        merge_loop_append [of _ _ _ _ _ pre] merge_loop_parse_error del: merge_loop.simps)

text \<open>
  With no source that gives data, the merged calendar is the empty one; with a
  source whose text does not parse, between one that fails to fetch and one that
  would succeed, the result is the parser's error.
\<close>

theorem merge_calendars_failures_witness:
  "merge_calendars example_env [(''ftp://example.com/c.ics'', True), (''data://'', False)]
     None ''Merged Calendar'' ''busy'' ''camerge'' None = Inr ''VCALENDAR Merged Calendar''
   \<and> merge_calendars example_env
       ([(''ftp://example.com/c.ics'', True)] @ (''data://garbage'', False) # [(''file:///a.ics'', True)])
       None ''Merged Calendar'' ''busy'' ''camerge'' None = Inl ValueError"
proof -
  have f: "fetched example_env ''ftp://example.com/c.ics'' = None"
    "fetched example_env ''data://'' = None"
    "fetched example_env ''data://garbage'' = Some ''garbage''"
    by (simp_all add: fetched_def get_calendar_data_def example_env_def)
  have p: "from_ical example_env ''garbage'' = Inl ValueError"
    by (simp add: example_env_def)
  have m: "merged_calendar example_env [(''ftp://example.com/c.ics'', True)] None
             ''Merged Calendar'' ''busy'' ''camerge'' None
           = Inr \<lparr>prodid = ''Merged Calendar'', version = ''2.0'', subcomponents = []\<rparr>"
    by (simp add: merged_calendar_def get_calendar_data_def example_env_def)
  have c: "calendar_to_ical example_env
             \<lparr>prodid = ''Merged Calendar'', version = ''2.0'', subcomponents = []\<rparr>
           = ''VCALENDAR Merged Calendar''"
    by (simp add: example_env_def)
  show ?thesis
    using merge_calendars_failures [where env = example_env
            and sources = "[(''ftp://example.com/c.ics'', True), (''data://'', False)]"
            and known = None and name = "''Merged Calendar''" and ph = "''busy''"
            and domain = "''camerge''" and cutoff = None
            and pre = "[(''ftp://example.com/c.ics'', True)]"
            and cal = "\<lparr>prodid = ''Merged Calendar'', version = ''2.0'', subcomponents = []\<rparr>"
            and url = "''data://garbage''" and content = "''garbage''" and e = ValueError
            and anonymize = False and post = "[(''file:///a.ics'', True)]"]
          f p m c
    by simp
qed

text \<open>
  The statement that a parse failure on one source is recovered and the partial
  calendar returned does not hold: the first source is fetched and parsed, the text
  of the second does not parse, and the call ends with the parser's error.
\<close>

theorem merge_calendars_parse_error_counterexample:
  "fetched example_env ''file:///a.ics'' = Some ''CAL-A''
   \<and> from_ical example_env ''CAL-A'' \<noteq> Inl ValueError
   \<and> fetched example_env ''data://garbage'' = Some ''garbage''
   \<and> from_ical example_env ''garbage'' = Inl ValueError
   \<and> merge_calendars example_env [(''file:///a.ics'', True), (''data://garbage'', False)]
         None ''Merged Calendar'' ''busy'' ''camerge'' None = Inl ValueError"
  by (simp add: merge_calendars_def merged_calendar_def fetched_def get_calendar_data_def
        example_env_def process_calendar_data_def should_skip_event_def project_event_def
        generate_uid_def meeting_def)

text \<open>
  C8. A retrieval error of a source (the file cannot be read, the request fails,
  the scheme is not recognised) is caught: the fetcher returns no data, and the
  orchestrator skips the source and goes on. The result of the merge is the result
  of the merge without that source, so the components of the other sources are in
  the output.
\<close>

theorem retrieval_errors_skipped:
  assumes "retrieval_error env url"
  shows "get_calendar_data env url = None
       \<and> merged_calendar env (pre @ (url, anonymize) # post) known name ph domain cutoff
         = merged_calendar env (pre @ post) known name ph domain cutoff
       \<and> merge_calendars env (pre @ (url, anonymize) # post) known name ph domain cutoff
         = merge_calendars env (pre @ post) known name ph domain cutoff"
proof -
  from assms have none: "get_calendar_data env url = None"
    by (simp add: retrieval_error_iff)
  then have "fetched env url = None"
    by (simp add: fetched_def)
  then have "merged_calendar env (pre @ (url, anonymize) # post) known name ph domain cutoff
         = merged_calendar env (pre @ post) known name ph domain cutoff"
    unfolding merged_calendar_def by (rule merge_loop_skip_middle)
  with none show ?thesis
    by (simp add: merge_calendars_def)
qed

text \<open>
  Each of the three retrieval errors occurs in the example; with a missing file
  between two good sources the merged calendar has the components of both.
\<close>

theorem retrieval_errors_skipped_witness:
  "retrieval_error example_env ''file:///missing.ics''
   \<and> retrieval_error example_env ''https://example.com/down.ics''
   \<and> retrieval_error example_env ''ftp://example.com/c.ics''
   \<and> (\<exists>cal. merged_calendar example_env
         ([(''file:///a.ics'', True)] @ (''file:///missing.ics'', True)
            # [(''webcal://example.com/b.ics'', False)])
         None ''Merged Calendar'' ''busy'' ''camerge'' None = Inr cal
       \<and> filter is_timezone (subcomponents cal) = [Timezone ''Europe/Prague'', Timezone ''UTC'']
       \<and> event_fields ''summary'' cal
           = [Some (PyStr ''busy''),
              Some (ICal (Some ''Secret meeting'') [] ''Secret meeting'' None)])"
proof -
  have r: "retrieval_error example_env ''file:///missing.ics''"
    "retrieval_error example_env ''https://example.com/down.ics''"
    "retrieval_error example_env ''ftp://example.com/c.ics''"
    by (simp_all add: retrieval_error_def example_env_def)
  have "\<exists>cal. merged_calendar example_env
         ([(''file:///a.ics'', True)] @ [(''webcal://example.com/b.ics'', False)])
         None ''Merged Calendar'' ''busy'' ''camerge'' None = Inr cal
       \<and> filter is_timezone (subcomponents cal) = [Timezone ''Europe/Prague'', Timezone ''UTC'']
       \<and> event_fields ''summary'' cal
           = [Some (PyStr ''busy''),
              Some (ICal (Some ''Secret meeting'') [] ''Secret meeting'' None)]"
    by (simp add: example_eval event_fields_def)
  with retrieval_errors_skipped [OF r(1), of "[(''file:///a.ics'', True)]" True
         "[(''webcal://example.com/b.ics'', False)]" None "''Merged Calendar''" "''busy''"
         "''camerge''" None] r
  show ?thesis by simp
qed

text \<open>
  C9. A source whose fetched text is the empty string, such as the descriptor
  \<^verbatim>\<open>data://\<close>, is skipped exactly like a source whose fetch failed: the result of
  the merge is the same with the one as with the other, and the same as without
  that source.
\<close>

theorem empty_text_skipped:
  "get_calendar_data env ''data://'' = Some []
   \<and> (get_calendar_data env url = Some [] \<and> get_calendar_data env url' = None \<longrightarrow>
        merged_calendar env (pre @ (url, anonymize) # post) known name ph domain cutoff
        = merged_calendar env (pre @ (url', anonymize') # post) known name ph domain cutoff
        \<and> merged_calendar env (pre @ (url, anonymize) # post) known name ph domain cutoff
        = merged_calendar env (pre @ post) known name ph domain cutoff)"
proof (intro conjI impI)
  show "get_calendar_data env ''data://'' = Some []"
    by (simp add: get_calendar_data_def)
next
  assume a: "get_calendar_data env url = Some [] \<and> get_calendar_data env url' = None"
  then have f: "fetched env url = None" "fetched env url' = None"
    by (simp_all add: fetched_def)
  show "merged_calendar env (pre @ (url, anonymize) # post) known name ph domain cutoff
        = merged_calendar env (pre @ (url', anonymize') # post) known name ph domain cutoff"
    unfolding merged_calendar_def by (simp only: merge_loop_skip_middle [OF f(1)]
        merge_loop_skip_middle [OF f(2)])
  show "merged_calendar env (pre @ (url, anonymize) # post) known name ph domain cutoff
        = merged_calendar env (pre @ post) known name ph domain cutoff"
    unfolding merged_calendar_def by (simp only: merge_loop_skip_middle [OF f(1)])
qed

text \<open>
  In the example \<^verbatim>\<open>data://\<close> gives the empty text and a missing file gives no data;
  the merge is the same with either in the list, and with \<^verbatim>\<open>data://\<close> after a good
  source the merged calendar has the two components of the good source.
\<close>

theorem empty_text_skipped_witness:
  "get_calendar_data example_env ''data://'' = Some []
   \<and> get_calendar_data example_env ''file:///missing.ics'' = None
   \<and> merged_calendar example_env
        ([(''file:///a.ics'', True)] @ (''data://'', False) # [(''data://garbage'', True)])
        None ''Merged Calendar'' ''busy'' ''camerge'' None
      = merged_calendar example_env
        ([(''file:///a.ics'', True)] @ (''file:///missing.ics'', True) # [(''data://garbage'', True)])
        None ''Merged Calendar'' ''busy'' ''camerge'' None
   \<and> (\<exists>cal. merged_calendar example_env
         ([(''file:///a.ics'', True)] @ (''data://'', False) # [])
         None ''Merged Calendar'' ''busy'' ''camerge'' None = Inr cal
        \<and> length (subcomponents cal) = 2)"
proof -
  have g: "get_calendar_data example_env ''data://'' = Some []"
    "get_calendar_data example_env ''file:///missing.ics'' = None"
    by (simp_all add: get_calendar_data_def example_env_def)
  note skip = empty_text_skipped [where env = example_env and url = "''data://''"
      and url' = "''file:///missing.ics''" and pre = "[(''file:///a.ics'', True)]"
      and anonymize = False and anonymize' = True
      and known = None and name = "''Merged Calendar''" and ph = "''busy''"
      and domain = "''camerge''" and cutoff = None]
  have same: "merged_calendar example_env
        ([(''file:///a.ics'', True)] @ (''data://'', False) # [(''data://garbage'', True)])
        None ''Merged Calendar'' ''busy'' ''camerge'' None
      = merged_calendar example_env
        ([(''file:///a.ics'', True)] @ (''file:///missing.ics'', True) # [(''data://garbage'', True)])
        None ''Merged Calendar'' ''busy'' ''camerge'' None"
    using skip [where post = "[(''data://garbage'', True)]"] g by blast
  have without: "merged_calendar example_env
         ([(''file:///a.ics'', True)] @ (''data://'', False) # [])
         None ''Merged Calendar'' ''busy'' ''camerge'' None
       = merged_calendar example_env ([(''file:///a.ics'', True)] @ [])
         None ''Merged Calendar'' ''busy'' ''camerge'' None"
    using skip [where post = "[]"] g by blast
  have "\<exists>cal. merged_calendar example_env ([(''file:///a.ics'', True)] @ [])
         None ''Merged Calendar'' ''busy'' ''camerge'' None = Inr cal
        \<and> length (subcomponents cal) = 2"
    by (simp add: example_eval)
  then have "\<exists>cal. merged_calendar example_env
         ([(''file:///a.ics'', True)] @ (''data://'', False) # [])
         None ''Merged Calendar'' ''busy'' ''camerge'' None = Inr cal
        \<and> length (subcomponents cal) = 2"
    by (simp only: without)
  with g same show ?thesis by blast
qed

section \<open>Timezones and attendees\<close>

text \<open>
  C6. The timezone components of a source are passed through: what the processing
  of a source returns has the timezone components of the parsed source, the same
  and in the same order, and the timezone components of the merged calendar are
  those of the sources that were fetched and parsed, in the order of the sources;
  no cutoff drops one and the projector changes none. The merged calendar exists
  when every fetched source parses and its events are well typed.
\<close>

theorem timezones_pass_through:
  "(process_calendar_data env content domain known cutoff ph mapper = Inr out
      \<and> from_ical env content = Inr parsed \<longrightarrow>
    filter is_timezone out = filter is_timezone parsed)
   \<and> (merged_calendar env sources known_opt name busy domain cutoff = Inr cal \<longrightarrow>
    filter is_timezone (subcomponents cal) = concat (map (source_timezones env) sources))
   \<and> ((\<forall>src \<in> set sources. \<forall>fetched_text. fetched env (fst src) = Some fetched_text \<longrightarrow>
         (\<exists>comps. from_ical env fetched_text = Inr comps
            \<and> (\<forall>ev. Event ev \<in> set comps \<longrightarrow> well_typed ev))) \<longrightarrow>
    (\<exists>merged. merged_calendar env sources known_opt name busy domain cutoff = Inr merged))"
proof (intro conjI impI)
  assume "process_calendar_data env content domain known cutoff ph mapper = Inr out
      \<and> from_ical env content = Inr parsed"
  then show "filter is_timezone out = filter is_timezone parsed"
    using process_calendar_data_timezones by fastforce
next
  assume "merged_calendar env sources known_opt name busy domain cutoff = Inr cal"
  then show "filter is_timezone (subcomponents cal) = concat (map (source_timezones env) sources)"
    unfolding merged_calendar_def by (drule_tac merge_loop_timezones) simp
next
  assume "\<forall>src \<in> set sources. \<forall>fetched_text. fetched env (fst src) = Some fetched_text \<longrightarrow>
         (\<exists>comps. from_ical env fetched_text = Inr comps
            \<and> (\<forall>ev. Event ev \<in> set comps \<longrightarrow> well_typed ev))"
  then show "\<exists>merged. merged_calendar env sources known_opt name busy domain cutoff = Inr merged"
    unfolding merged_calendar_def by (rule merge_loop_returns)
qed

text \<open>
  Two sources with one timezone each, and a cutoff that drops the meeting of the
  first: both timezones are in the merged calendar.
\<close>

theorem timezones_pass_through_witness:
  "\<exists>cal. merged_calendar example_env
      [(''file:///a.ics'', True), (''webcal://example.com/b.ics'', False)]
      None ''Merged Calendar'' ''busy'' ''camerge'' (Some (Date 2021 1 1)) = Inr cal
    \<and> filter is_timezone (subcomponents cal) = [Timezone ''Europe/Prague'', Timezone ''UTC'']
    \<and> length (subcomponents cal) = 3"
proof -
  obtain cal where cal: "merged_calendar example_env
      [(''file:///a.ics'', True), (''webcal://example.com/b.ics'', False)]
      None ''Merged Calendar'' ''busy'' ''camerge'' (Some (Date 2021 1 1)) = Inr cal"
    and len: "length (subcomponents cal) = 3"
    by (simp add: example_eval)
  have "concat (map (source_timezones example_env)
          [(''file:///a.ics'', True), (''webcal://example.com/b.ics'', False)])
        = [Timezone ''Europe/Prague'', Timezone ''UTC'']"
    by (simp add: source_timezones_def fetched_def get_calendar_data_def example_env_def
          str_replace.simps)
  with timezones_pass_through [where env = example_env
      and sources = "[(''file:///a.ics'', True), (''webcal://example.com/b.ics'', False)]"
      and known_opt = None and name = "''Merged Calendar''" and busy = "''busy''"
      and domain = "''camerge''" and cutoff = "Some (Date 2021 1 1)" and cal = cal] cal len
  show ?thesis by simp
qed

text \<open>
  C7. The attendee field is not among the fields that are copied, a projected event
  has no attendee entry, and no event of the merged calendar has one.
\<close>

theorem no_attendee_in_output:
  "''attendee'' \<notin> set copied_keys
   \<and> (project_event env component domain known ph = Inr out \<longrightarrow> out ''attendee'' = None)
   \<and> (merged_calendar env sources known_opt name busy domain cutoff = Inr cal \<longrightarrow>
        (\<forall>ev. Event ev \<in> set (subcomponents cal) \<longrightarrow> ev ''attendee'' = None))"
proof (intro conjI impI)
  show "''attendee'' \<notin> set copied_keys"
    by (simp add: copied_keys_def)
next
  assume "project_event env component domain known ph = Inr out"
  then show "out ''attendee'' = None"
    by (rule project_event_no_attendee)
next
  assume "merged_calendar env sources known_opt name busy domain cutoff = Inr cal"
  then show "\<forall>ev. Event ev \<in> set (subcomponents cal) \<longrightarrow> ev ''attendee'' = None"
    unfolding merged_calendar_def by (rule merge_loop_no_attendee) simp
qed

text \<open>
  Both events of the example have attendees; the two events of the merged calendar
  have none.
\<close>

theorem no_attendee_in_output_witness:
  "meeting ''attendee'' \<noteq> None \<and> weekly ''attendee'' \<noteq> None
   \<and> (\<exists>cal. merged_calendar example_env
         [(''file:///a.ics'', True), (''webcal://example.com/b.ics'', False)]
         (Some [''confirmed@example.com'']) ''Merged Calendar'' ''busy'' ''camerge'' None
         = Inr cal
       \<and> event_fields ''attendee'' cal = [None, None])"
proof -
  obtain cal e1 e2 where cal: "merged_calendar example_env
         [(''file:///a.ics'', True), (''webcal://example.com/b.ics'', False)]
         (Some [''confirmed@example.com'']) ''Merged Calendar'' ''busy'' ''camerge'' None
         = Inr cal"
    and comps: "subcomponents cal
         = [Timezone ''Europe/Prague'', Event e1, Timezone ''UTC'', Event e2]"
    by (simp add: example_eval)
  from no_attendee_in_output [where env = example_env
      and sources = "[(''file:///a.ics'', True), (''webcal://example.com/b.ics'', False)]"
      and known_opt = "Some [''confirmed@example.com'']" and name = "''Merged Calendar''"
      and busy = "''busy''" and domain = "''camerge''" and cutoff = None and cal = cal] cal
  have "\<forall>ev. Event ev \<in> set (subcomponents cal) \<longrightarrow> ev ''attendee'' = None"
    by blast
  then have "event_fields ''attendee'' cal = [None, None]"
    by (simp add: event_fields_def comps)
  moreover have "meeting ''attendee'' \<noteq> None" "weekly ''attendee'' \<noteq> None"
    by (simp_all add: meeting_def weekly_def)
  ultimately show ?thesis using cal by blast
qed

section \<open>Anonymisation\<close>

text \<open>
  C10. With the empty string as placeholder no summary is replaced: the projector
  does with the empty placeholder what it does with no placeholder, the projected
  event keeps the summary of its source, and the merged calendar is the one that the
  same sources give with every anonymize flag false.
\<close>

theorem empty_placeholder_keeps_summary:
  "project_event env component domain known (Some [])
     = project_event env component domain known None
   \<and> (project_event env component domain known (Some []) = Inr out \<longrightarrow>
        out ''summary'' = component ''summary'')
   \<and> merged_calendar env sources known_opt name [] domain cutoff
     = merged_calendar env (map (\<lambda>(url, anonymize). (url, False)) sources) known_opt name []
         domain cutoff"
proof (intro conjI impI)
  show "project_event env component domain known (Some [])
     = project_event env component domain known None"
    by (rule project_event_empty_placeholder)
next
  assume "project_event env component domain known (Some []) = Inr out"
  then show "out ''summary'' = component ''summary''"
    by (simp add: project_event_lookup copied_keys_def)
next
  show "merged_calendar env sources known_opt name [] domain cutoff
     = merged_calendar env (map (\<lambda>(url, anonymize). (url, False)) sources) known_opt name []
         domain cutoff"
    unfolding merged_calendar_def by (rule merge_loop_empty_placeholder)
qed

text \<open>The meeting, projected with the empty placeholder, keeps its summary.\<close>

theorem empty_placeholder_keeps_summary_witness:
  "\<exists>out. project_event example_env meeting ''camerge'' [] (Some []) = Inr out
     \<and> out ''summary'' = Some (ICal (Some ''Secret meeting'') [] ''Secret meeting'' None)"
proof -
  obtain out where out: "project_event example_env meeting ''camerge'' [] (Some []) = Inr out"
    using project_event_returns [of meeting example_env "''camerge''" "[]" "Some []"]
    by (auto simp: well_typed_def end_or_start_def meeting_def)
  with empty_placeholder_keeps_summary [where env = example_env and component = meeting
      and domain = "''camerge''" and known = "[]" and out = out]
  have "out ''summary'' = meeting ''summary''" by blast
  then have "out ''summary'' = Some (ICal (Some ''Secret meeting'') [] ''Secret meeting'' None)"
    by (simp add: meeting_def)
  with out show ?thesis by blast
qed

text \<open>
  C5. The code at the input where it departs from the claim: the source is to be
  anonymised and the placeholder is the empty string, which is not null. The
  summary of the output event is the summary of the source event, not the
  placeholder. With the placeholder \<^verbatim>\<open>busy\<close> the summary is replaced.
\<close>

theorem anonymize_with_empty_placeholder:
  "meeting ''summary'' = Some (ICal (Some ''Secret meeting'') [] ''Secret meeting'' None)
   \<and> from_ical example_env ''CAL-A''
       = Inr [Timezone ''Europe/Prague'', Event meeting, Other ''VTODO'']
   \<and> map_sum id (event_fields ''summary'')
        (merged_calendar example_env [(''file:///a.ics'', True)] None ''Merged Calendar''
           [] ''camerge'' None)
       = Inr [Some (ICal (Some ''Secret meeting'') [] ''Secret meeting'' None)]
   \<and> map_sum id (event_fields ''summary'')
        (merged_calendar example_env [(''file:///a.ics'', True)] None ''Merged Calendar''
           ''busy'' ''camerge'' None)
       = Inr [Some (PyStr ''busy'')]"
  by (simp add: example_eval event_fields_def)

end
